theory Spec2Isabelle
  imports Main "HOL-Library.Word"
begin

section \<open>Data model of \<open>cl/program.go\<close>\<close>

text \<open>
  Native handles are C pointers. A pointer is modelled by its 64-bit address, and the nil
  pointer is the address 0, which is also what \<open>uintptr(unsafe.Pointer(x))\<close> gives for it.
  A native status is a \<open>C.cl_int\<close>; the code only compares it with \<open>CL_SUCCESS\<close>.
\<close>

type_synonym cl_program = "64 word"
type_synonym cl_device_id = "64 word"
type_synonym cl_kernel = "64 word"
type_synonym cl_int = int

definition CL_SUCCESS :: cl_int where
  "CL_SUCCESS = 0"

text \<open>
  Modelled from the spec: the struct \<open>Device\<close> is declared outside \<open>program.go\<close>. The
  code uses one field of it, \<open>id\<close> (\<open>device.id\<close>, \<open>&Device{id: id}\<close>), the opaque native
  identity token. The field is named \<open>dev_id\<close> here, since \<open>id\<close> is a constant of HOL.
  A \<open>*Device\<close> is a \<open>Device option\<close>, \<open>None\<close> being the nil pointer.
\<close>

record Device =
  dev_id :: cl_device_id

type_synonym device_ptr = "Device option"

text \<open>
  A slice \<open>[]*Device\<close> is a header (backing array, offset, length) into a store of arrays,
  so that two slices can share an array and a write through one is seen through the other.
  The store is a list of arrays; the address of an array is its index, and a new array is
  put at the end. \<open>NilSlice\<close> is the nil slice.
\<close>

datatype slice = NilSlice | Slice nat nat nat

type_synonym heap = "device_ptr list list"

fun slice_len :: "slice \<Rightarrow> nat" where
  "slice_len NilSlice = 0"
| "slice_len (Slice a off n) = n"

fun slice_get :: "heap \<Rightarrow> slice \<Rightarrow> device_ptr list" where
  "slice_get h NilSlice = []"
| "slice_get h (Slice a off n) = (if a < length h then take n (drop off (h ! a)) else [])"

fun slice_ok :: "heap \<Rightarrow> slice \<Rightarrow> bool" where
  "slice_ok h NilSlice = True"
| "slice_ok h (Slice a off n) = (a < length h \<and> off + n \<le> length (h ! a))"

text \<open>\<open>s[i] = v\<close>, by the holder of the slice \<open>s\<close>; out of range Go panics and nothing is written.\<close>

fun slice_store :: "heap \<Rightarrow> slice \<Rightarrow> nat \<Rightarrow> device_ptr \<Rightarrow> heap option" where
  "slice_store h NilSlice i v = None"
| "slice_store h (Slice a off n) i v =
     (if i < n \<and> a < length h \<and> off + i < length (h ! a)
      then Some (h[a := (h ! a)[off + i := v]]) else None)"

text \<open>\<open>append([]*Device(nil), xs...)\<close> and \<open>make\<close>: a new backing array holding \<open>xs\<close>.\<close>

definition alloc :: "heap \<Rightarrow> device_ptr list \<Rightarrow> slice \<times> heap" where
  "alloc h xs = (Slice (length h) 0 (length xs), h @ [xs])"

record Program =
  clProgram :: cl_program
  devices :: slice

record Kernel =
  clKernel :: cl_kernel
  name :: string

text \<open>
  The values of Go's \<open>error\<close> that this file can return. \<open>BuildError\<close> is the string type
  declared in \<open>program.go\<close>; \<open>ErrorString\<close> is what \<open>fmt.Errorf\<close> builds; the sentinels
  \<open>ErrInvalidProgram\<close>, \<open>ErrInvalidDevice\<close> and \<open>ErrUnknown\<close> are named in \<open>program.go\<close> and
  declared outside it, like every other status error, \<open>ErrStatus\<close> here.
\<close>

datatype error =
    ErrInvalidProgram
  | ErrInvalidDevice
  | ErrUnknown
  | ErrStatus cl_int
  | BuildError string
  | ErrorString string

text \<open>The calls into the native library, in the order in which they are made.\<close>

datatype native_call =
    CallReleaseProgram cl_program
  | CallBuildProgram cl_program nat "cl_device_id list option" "string option"
  | CallGetProgramBuildInfo cl_program cl_device_id nat
  | CallGetProgramInfo cl_program nat
  | CallCreateKernel cl_program string

text \<open>
  What \<open>program.go\<close> calls and does not define: the native library (each function gives the
  status it returns and what it writes through its out-pointers), and the Go code of the
  package that lives in other files.
  \<^item> \<open>clBuildProgram prog numDevices deviceList options\<close> is the status of the build.
  \<^item> \<open>clGetProgramBuildInfo_size prog dev\<close> is the call with a nil buffer: status and size.
  \<^item> \<open>clGetProgramBuildInfo_log prog dev size\<close> is the call with a buffer of \<open>size\<close> bytes:
    status and the bytes written.
  \<^item> \<open>clGetProgramInfo_size prog\<close> and \<open>clGetProgramInfo_devices prog size\<close> likewise, for
    the selector \<open>CL_PROGRAM_DEVICES\<close>.
  \<^item> \<open>clCreateKernel prog name\<close> is the kernel handle and the status.
  \<^item> \<open>toError\<close> is the status translator. Modelled from the spec: it is total and maps every
    status other than success to an error, so it never returns nil where this file calls it.
  \<^item> \<open>errorText\<close> is the method \<open>Error()\<close> of the errors declared outside \<open>program.go\<close>.
  \<^item> \<open>buildDeviceIdList\<close> is the helper of that name.
  \<^item> \<open>Name\<close> is the method \<open>Device.Name()\<close>; \<open>None\<close> when it panics.
  \<^item> \<open>TrimSpace\<close> is \<open>strings.TrimSpace\<close> of the standard library.
\<close>

record env =
  clBuildProgram :: "cl_program \<Rightarrow> nat \<Rightarrow> cl_device_id list option \<Rightarrow> string option \<Rightarrow> cl_int"
  clGetProgramBuildInfo_size :: "cl_program \<Rightarrow> cl_device_id \<Rightarrow> cl_int \<times> nat"
  clGetProgramBuildInfo_log :: "cl_program \<Rightarrow> cl_device_id \<Rightarrow> nat \<Rightarrow> cl_int \<times> string"
  clGetProgramInfo_size :: "cl_program \<Rightarrow> cl_int \<times> nat"
  clGetProgramInfo_devices :: "cl_program \<Rightarrow> nat \<Rightarrow> cl_int \<times> cl_device_id list"
  clCreateKernel :: "cl_program \<Rightarrow> string \<Rightarrow> cl_kernel \<times> cl_int"
  toError :: "cl_int \<Rightarrow> error"
  errorText :: "error \<Rightarrow> string"
  buildDeviceIdList :: "device_ptr list \<Rightarrow> cl_device_id list"
  Name :: "Device \<Rightarrow> string option"
  TrimSpace :: "string \<Rightarrow> string"

section \<open>Formatting\<close>

text \<open>\<open>func (e BuildError) Error() string\<close>, and \<open>Error()\<close> of the other errors.\<close>

fun Error :: "env \<Rightarrow> error \<Rightarrow> string" where
  "Error env (BuildError e) = ''cl: build error ('' @ e @ '')''"
| "Error env (ErrorString s) = s"
| "Error env e = errorText env e"

text \<open>The verb \<open>%x\<close> of \<open>fmt\<close> on an unsigned integer: lower-case hexadecimal, no leading zero.\<close>

definition hexDigit :: "nat \<Rightarrow> char" where
  "hexDigit n = (''0123456789abcdef'' ! (n mod 16))"

fun hexNat :: "nat \<Rightarrow> string" where
  "hexNat n = (if n < 16 then [hexDigit n] else hexNat (n div 16) @ [hexDigit (n mod 16)])"

declare hexNat.simps [simp del]

text \<open>\<open>strings.Join(elems, sep)\<close>.\<close>

fun Join :: "string list \<Rightarrow> string \<Rightarrow> string" where
  "Join [] sep = []"
| "Join [s] sep = s"
| "Join (s # t # ss) sep = s @ sep @ Join (t # ss) sep"

text \<open>\<open>bytes.IndexByte(b, c)\<close>: the index of the first \<open>c\<close> in \<open>b\<close>, or \<open>-1\<close>.\<close>

fun IndexByte :: "string \<Rightarrow> char \<Rightarrow> int" where
  "IndexByte [] c = -1"
| "IndexByte (x # xs) c =
     (if x = c then 0 else (let i = IndexByte xs c in if i < 0 then -1 else i + 1))"

section \<open>The operations\<close>

subsection \<open>\<open>releaseProgram\<close> and \<open>Release\<close>\<close>

definition releaseProgram :: "Program \<Rightarrow> Program \<times> native_call list" where
  "releaseProgram p =
     (let (p1, calls) =
            (if clProgram p \<noteq> 0
             then (p\<lparr>clProgram := 0\<rparr>, [CallReleaseProgram (clProgram p)])
             else (p, []))
      in (p1\<lparr>devices := NilSlice\<rparr>, calls))"

definition Release :: "Program \<Rightarrow> Program \<times> native_call list" where
  "Release p = releaseProgram p"

subsection \<open>\<open>CreateKernel\<close>\<close>

text \<open>\<open>runtime.SetFinalizer\<close> registers a clean-up and has no effect the model observes.\<close>

definition CreateKernel :: "env \<Rightarrow> Program \<Rightarrow> string \<Rightarrow> (error + Kernel) \<times> native_call list" where
  "CreateKernel env p nm =
     (let (clk, err) = clCreateKernel env (clProgram p) nm;
          calls = [CallCreateKernel (clProgram p) nm]
      in if err \<noteq> CL_SUCCESS then (Inl (toError env err), calls)
         else (Inr \<lparr>clKernel = clk, name = nm\<rparr>, calls))"

subsection \<open>\<open>GetBuildLog\<close>\<close>

text \<open>
  The receiver is a record, so the test \<open>p == nil\<close> of the source is always false here.
  The buffer is \<open>size\<close> zero bytes, over which the native call writes.
\<close>

definition GetBuildLog :: "env \<Rightarrow> Program \<Rightarrow> device_ptr \<Rightarrow> (error + string) \<times> native_call list" where
  "GetBuildLog env p device =
     (if clProgram p = 0 then (Inl ErrInvalidProgram, [])
      else case device of
        None \<Rightarrow> (Inl ErrInvalidDevice, [])
      | Some d \<Rightarrow>
          (let (err, size) = clGetProgramBuildInfo_size env (clProgram p) (dev_id d);
               calls = [CallGetProgramBuildInfo (clProgram p) (dev_id d) 0]
           in if err \<noteq> CL_SUCCESS then (Inl (toError env err), calls)
              else if size = 0 then (Inr [], calls)
              else
                (let buf0 = replicate size (CHR 0x00)
                 in if length buf0 = 0 then (Inr [], calls)
                    else
                      (let (err2, written) =
                             clGetProgramBuildInfo_log env (clProgram p) (dev_id d) size;
                           buf = take size (written @ drop (length written) buf0);
                           calls2 = calls @ [CallGetProgramBuildInfo (clProgram p) (dev_id d) size]
                       in if err2 \<noteq> CL_SUCCESS then (Inl (toError env err2), calls2)
                          else
                            (let idx = IndexByte buf (CHR 0x00)
                             in (Inr (if idx \<ge> 0 then take (nat idx) buf else buf), calls2))))))"

subsection \<open>\<open>associatedDevices\<close>\<close>

text \<open>\<open>unsafe.Sizeof\<close> of a \<open>cl_device_id\<close>, a pointer of 8 bytes.\<close>

definition elemSize :: nat where
  "elemSize = 8"

text \<open>The loop over \<open>ids\<close>: nil entries are skipped, the others wrapped and appended.\<close>

fun wrapIds :: "cl_device_id list \<Rightarrow> device_ptr list \<Rightarrow> device_ptr list" where
  "wrapIds [] devs = devs"
| "wrapIds (i # ids) devs =
     (if i = 0 then wrapIds ids devs else wrapIds ids (devs @ [Some \<lparr>dev_id = i\<rparr>]))"

definition associatedDevices :: "env \<Rightarrow> Program \<Rightarrow> (error + device_ptr list) \<times> native_call list" where
  "associatedDevices env p =
     (if clProgram p = 0 then (Inl ErrInvalidProgram, [])
      else
        (let (err, size) = clGetProgramInfo_size env (clProgram p);
             calls = [CallGetProgramInfo (clProgram p) 0]
         in if err \<noteq> CL_SUCCESS then (Inl (toError env err), calls)
            else if size = 0 then (Inr [], calls)
            else if elemSize = 0 then (Inl ErrUnknown, calls)
            else
              (let count = size div elemSize
               in if count \<le> 0 then (Inr [], calls)
                  else
                    (let ids0 = replicate count (0 :: cl_device_id);
                         (err2, written) = clGetProgramInfo_devices env (clProgram p) size;
                         ids = take count (written @ drop (length written) ids0);
                         calls2 = calls @ [CallGetProgramInfo (clProgram p) size]
                     in if err2 \<noteq> CL_SUCCESS then (Inl (toError env err2), calls2)
                        else (Inr (wrapIds ids []), calls2)))))"

subsection \<open>\<open>deviceIDKey\<close> and \<open>safeDeviceLabel\<close>\<close>

definition deviceIDKey :: "device_ptr \<Rightarrow> 64 word" where
  "deviceIDKey d = (case d of None \<Rightarrow> 0 | Some dv \<Rightarrow> dev_id dv)"

text \<open>\<open>fmt.Sprintf("device@0x%x", key)\<close>.\<close>

definition syntheticLabel :: "64 word \<Rightarrow> string" where
  "syntheticLabel key = ''device@0x'' @ hexNat (unat key)"

text \<open>
  \<open>safeDeviceLabel\<close> has one unnamed result of type \<open>string\<close> and a local variable \<open>label\<close>.
  The triple below is the frame when the body is left: the local \<open>label\<close>, the result slot,
  and whether the body is panicking. A \<open>return label\<close> copies \<open>label\<close> into the result slot
  and then runs the deferred closure. When \<open>d.Name()\<close> panics, no \<open>return\<close> is executed: the
  result slot still holds the zero value of \<open>string\<close>. The deferred closure then runs,
  \<open>recover()\<close> is not nil and stops the panic, and the closure assigns to the local
  \<open>label\<close>, which is not the result slot. The function returns the result slot.
\<close>

definition safeDeviceLabel :: "env \<Rightarrow> device_ptr \<Rightarrow> string" where
  "safeDeviceLabel env d =
     (case d of
        None \<Rightarrow> ''device<nil>''
      | Some dv \<Rightarrow>
          (let key = deviceIDKey d;
               label = syntheticLabel key;
               (label1, res, panicking) =
                  (case Name env dv of
                     None \<Rightarrow> (label, [], True)
                   | Some s \<Rightarrow>
                       (let nm = TrimSpace env s;
                            label1 = (if nm \<noteq> [] then nm else label)
                        in (label1, label1, False)));
               label2 = (if panicking then syntheticLabel key else label1)
           in res))"

subsection \<open>\<open>collectDevicesForLogs\<close>\<close>

text \<open>
  The closure \<open>add\<close> works on the two variables it captures, \<open>seen\<close> and \<open>list\<close>; here
  it takes them and returns them. \<open>seen\<close> is a \<open>map[uintptr]struct{}\<close>, a set of keys.
\<close>

fun add :: "64 word set \<times> device_ptr list \<Rightarrow> device_ptr list
            \<Rightarrow> 64 word set \<times> device_ptr list" where
  "add (seen, list) [] = (seen, list)"
| "add (seen, list) (d # devs) =
     (let key = deviceIDKey d
      in if key = 0 then add (seen, list) devs
         else if key \<in> seen then add (seen, list) devs
         else add (insert key seen, list @ [d]) devs)"

definition collectDevicesForLogs ::
  "env \<Rightarrow> heap \<Rightarrow> Program \<Rightarrow> slice \<Rightarrow> (error + device_ptr list) \<times> native_call list" where
  "collectDevicesForLogs env h p requested =
     (let st0 = ({}, []);
          st1 = add st0 (slice_get h requested);
          st2 = add st1 (slice_get h (devices p))
      in if length (snd st2) = 0
         then (case associatedDevices env p of
                 (Inr progDevices, calls) \<Rightarrow> (Inr (snd (add st2 progDevices)), calls)
               | (Inl err, calls) \<Rightarrow> (Inl err, calls))
         else (Inr (snd st2), []))"

subsection \<open>\<open>collectBuildLogs\<close>\<close>

text \<open>The loop over the devices, with the slice \<open>logs\<close> and the calls made so far.\<close>

fun collectBuildLogs_loop ::
  "env \<Rightarrow> Program \<Rightarrow> device_ptr list \<Rightarrow> string list \<times> native_call list
   \<Rightarrow> string list \<times> native_call list" where
  "collectBuildLogs_loop env p [] (logs, calls) = (logs, calls)"
| "collectBuildLogs_loop env p (dev # devs) (logs, calls) =
     (let label = safeDeviceLabel env dev;
          (r, c) = GetBuildLog env p dev
      in case r of
           Inl err \<Rightarrow>
             collectBuildLogs_loop env p devs
               (logs @ [label @ '': <unable to fetch build log: '' @ Error env err @ ''>''],
                calls @ c)
         | Inr lg \<Rightarrow>
             (let lg1 = TrimSpace env lg
              in if lg1 = [] then collectBuildLogs_loop env p devs (logs, calls @ c)
                 else collectBuildLogs_loop env p devs
                        (logs @ [label @ '':'' @ [CHR 0x0A] @ lg1], calls @ c)))"

definition collectBuildLogs ::
  "env \<Rightarrow> Program \<Rightarrow> device_ptr list \<Rightarrow> string list \<times> native_call list" where
  "collectBuildLogs env p devs = collectBuildLogs_loop env p devs ([], [])"

subsection \<open>\<open>wrapBuildError\<close>\<close>

definition wrapBuildError ::
  "env \<Rightarrow> heap \<Rightarrow> Program \<Rightarrow> cl_int \<Rightarrow> slice \<Rightarrow> error option \<times> native_call list" where
  "wrapBuildError env h p code requested =
     (case collectDevicesForLogs env h p requested of
        (Inl err, calls) \<Rightarrow>
          (Some (ErrorString (''cl: build error ('' @ Error env (toError env code)
                              @ ''; log unavailable: '' @ Error env err @ '')'')), calls)
      | (Inr devs, calls) \<Rightarrow>
          (let (logs, calls2) = collectBuildLogs env p devs
           in if length logs = 0 then (Some (toError env code), calls @ calls2)
              else
                (let status = ''status='' @ Error env (toError env code);
                     logs1 = [status] @ logs
                 in (Some (BuildError (Join logs1 [CHR 0x0A])), calls @ calls2))))"

subsection \<open>\<open>BuildProgram\<close>\<close>

text \<open>
  The result is the error (\<open>None\<close> for nil), the Program and the store after the call, and
  the native calls made. \<open>C.cl_uint(len(devices))\<close> keeps the low 32 bits of the length.
\<close>

definition BuildProgram ::
  "env \<Rightarrow> heap \<Rightarrow> Program \<Rightarrow> slice \<Rightarrow> string
   \<Rightarrow> error option \<times> Program \<times> heap \<times> native_call list" where
  "BuildProgram env h p devs options =
     (let cOptions = (if options \<noteq> [] then Some options else None);
          numDevices = slice_len devs mod 2 ^ 32;
          deviceList = (if slice_len devs > 0
                        then Some (buildDeviceIdList env (slice_get h devs)) else None);
          errCode = clBuildProgram env (clProgram p) numDevices deviceList cOptions;
          calls = [CallBuildProgram (clProgram p) numDevices deviceList cOptions]
      in if errCode \<noteq> CL_SUCCESS
         then (case wrapBuildError env h p errCode devs of
                 (Some buildErr, calls2) \<Rightarrow> (Some buildErr, p, h, calls @ calls2)
               | (None, calls2) \<Rightarrow> (Some (toError env errCode), p, h, calls @ calls2))
         else if slice_len devs > 0
         then (let (s, h1) = alloc h (slice_get h devs)
               in (None, p\<lparr>devices := s\<rparr>, h1, calls))
         else if slice_len (devices p) = 0
         then (case associatedDevices env p of
                 (Inr progDevices, calls2) \<Rightarrow>
                   (if length progDevices > 0
                    then (let (s, h1) = alloc h progDevices
                          in (None, p\<lparr>devices := s\<rparr>, h1, calls @ calls2))
                    else (None, p, h, calls @ calls2))
               | (Inl err, calls2) \<Rightarrow> (None, p, h, calls @ calls2))
         else (None, p, h, calls))"

section \<open>Notions of the specification\<close>

text \<open>
  The status that the native build returns in a call \<open>BuildProgram env h p devs options\<close>:
  the build has failed when it is not \<open>CL_SUCCESS\<close>.
\<close>

definition buildStatus :: "env \<Rightarrow> heap \<Rightarrow> Program \<Rightarrow> slice \<Rightarrow> string \<Rightarrow> cl_int" where
  "buildStatus env h p devs options =
     clBuildProgram env (clProgram p) (slice_len devs mod 2 ^ 32)
       (if slice_len devs > 0 then Some (buildDeviceIdList env (slice_get h devs)) else None)
       (if options \<noteq> [] then Some options else None)"

text \<open>
  Device-set resolution in the words of the specification: the devices in the order given,
  each identity token once, the first occurrence winning and later duplicates dropped.
  A device without an identity token (a nil pointer, or a nil \<open>id\<close>) is not a device.
\<close>

fun resolveOrder :: "device_ptr list \<Rightarrow> device_ptr list" where
  "resolveOrder [] = []"
| "resolveOrder (d # ds) =
     (if deviceIDKey d = 0 then resolveOrder ds
      else d # resolveOrder (filter (\<lambda>x. deviceIDKey x \<noteq> deviceIDKey d) ds))"

text \<open>
  Per-device log collection in the words of the specification: the section that one device
  contributes, and none for a device whose trimmed log is empty.
\<close>

definition deviceSection :: "env \<Rightarrow> Program \<Rightarrow> device_ptr \<Rightarrow> string list" where
  "deviceSection env p d =
     (case fst (GetBuildLog env p d) of
        Inl err \<Rightarrow>
          [safeDeviceLabel env d @ '': <unable to fetch build log: '' @ Error env err @ ''>'']
      | Inr lg \<Rightarrow>
          (if TrimSpace env lg = [] then []
           else [safeDeviceLabel env d @ '':'' @ [CHR 0x0A] @ TrimSpace env lg]))"

text \<open>
  A StatusError in the words of the specification: a native status code mapped to a
  structured, enumerable kind, not a string. These are the values the status translator
  and the sentinels stand for; a \<open>BuildError\<close> and an error built by \<open>fmt.Errorf\<close> are
  strings.
\<close>

fun isStatusError :: "error \<Rightarrow> bool" where
  "isStatusError ErrInvalidProgram = True"
| "isStatusError ErrInvalidDevice = True"
| "isStatusError ErrUnknown = True"
| "isStatusError (ErrStatus c) = True"
| "isStatusError (BuildError e) = False"
| "isStatusError (ErrorString s) = False"

section \<open>A fake native layer\<close>

text \<open>
  The end-to-end scenario of the specification. The program with handle \<open>0x1000\<close> has the
  devices \<open>0x10\<close> ("GPU0", log \<open>error: syntax\<close> and a newline) and \<open>0x20\<close> ("GPU1", empty
  log). For the device \<open>0x30\<close> the name is blank and the log query fails; the name of any
  other device panics. The device query of every other program fails. The build returns
  the status \<open>st\<close>. Statuses are those of \<open>cl.h\<close>: \<open>-11\<close> build program failure, \<open>-33\<close>
  invalid device, \<open>-44\<close> invalid program, \<open>-30\<close> invalid value.
\<close>

definition isSpaceAscii :: "char \<Rightarrow> bool" where
  "isSpaceAscii c = (c \<in> {CHR 0x09, CHR 0x0A, CHR 0x0B, CHR 0x0C, CHR 0x0D, CHR 0x20})"

definition trimSpaceAscii :: "string \<Rightarrow> string" where
  "trimSpaceAscii s = rev (dropWhile isSpaceAscii (rev (dropWhile isSpaceAscii s)))"

definition fakeToError :: "cl_int \<Rightarrow> error" where
  "fakeToError c =
     (if c = -44 then ErrInvalidProgram else if c = -33 then ErrInvalidDevice else ErrStatus c)"

fun fakeErrorText :: "error \<Rightarrow> string" where
  "fakeErrorText ErrInvalidProgram = ''cl: Invalid Program''"
| "fakeErrorText ErrInvalidDevice = ''cl: Invalid Device''"
| "fakeErrorText ErrUnknown = ''cl: Unknown error''"
| "fakeErrorText (ErrStatus c) =
     (if c = -11 then ''cl: Build Program Failure'' else ''cl: Invalid Value'')"
| "fakeErrorText (BuildError e) = ''cl: build error ('' @ e @ '')''"
| "fakeErrorText (ErrorString s) = s"

definition fakeNative :: "cl_int \<Rightarrow> env" where
  "fakeNative st =
     \<lparr> clBuildProgram = (\<lambda>prog n ids opts. if prog = 0 then -44 else st),
       clGetProgramBuildInfo_size =
         (\<lambda>prog d. if d = 0x10 then (0, 15) else if d = 0x20 then (0, 0)
                    else if d = 0x30 then (-33, 0) else (0, 1)),
       clGetProgramBuildInfo_log =
         (\<lambda>prog d size. if d = 0x10 then (0, ''error: syntax'' @ [CHR 0x0A, CHR 0x00])
                         else (0, [CHR 0x00])),
       clGetProgramInfo_size = (\<lambda>prog. if prog = 0x1000 then (0, 16) else (-30, 0)),
       clGetProgramInfo_devices = (\<lambda>prog size. (0, [0x10, 0x20])),
       clCreateKernel = (\<lambda>prog nm. if prog = 0 then (0, -44) else (0x5000, 0)),
       toError = fakeToError,
       errorText = fakeErrorText,
       buildDeviceIdList = map deviceIDKey,
       Name = (\<lambda>d. if dev_id d = 0x10 then Some ''GPU0''
                     else if dev_id d = 0x20 then Some ''GPU1''
                     else if dev_id d = 0x30 then Some ''  '' else None),
       TrimSpace = trimSpaceAscii \<rparr>"

section \<open>Lemmas on the operations\<close>

lemma add_append: "add st (xs @ ys) = add (add st xs) ys"
proof (induction xs arbitrary: st)
  case Nil
  then show ?case by (cases st) simp
next
  case (Cons d xs)
  then show ?case by (cases st) (simp add: Let_def)
qed

lemma snd_add_seen:
  "snd (add (seen, list) ds) =
     list @ resolveOrder (filter (\<lambda>x. deviceIDKey x \<notin> seen) ds)"
proof (induction ds arbitrary: seen list)
  case Nil
  then show ?case by simp
next
  case (Cons d ds)
  show ?case
    using Cons.IH [of seen list] Cons.IH [of "insert (deviceIDKey d) seen" "list @ [d]"]
    by (simp add: Let_def conj_commute)
qed

lemma snd_add_empty: "snd (add ({}, []) ds) = resolveOrder ds"
  by (simp add: snd_add_seen)

lemma resolveOrder_subset: "set (resolveOrder ds) \<subseteq> set ds"
  by (induction ds rule: resolveOrder.induct) auto

lemma resolveOrder_keys:
  "deviceIDKey ` set (resolveOrder ds) = deviceIDKey ` set ds - {0}"
  by (induction ds rule: resolveOrder.induct) auto

lemma resolveOrder_distinct: "distinct (map deviceIDKey (resolveOrder ds))"
  by (induction ds rule: resolveOrder.induct) (auto simp: resolveOrder_keys)

lemma resolveOrder_Nil_iff: "resolveOrder ds = [] \<longleftrightarrow> (\<forall>d \<in> set ds. deviceIDKey d = 0)"
  by (induction ds rule: resolveOrder.induct) auto

text \<open>
  \<open>resolveOrder\<close> read from left to right: a device is kept when it has a token and no
  device before it has the same token.
\<close>

lemma fst_add:
  "fst (add (seen, list) ds) = seen \<union> (deviceIDKey ` set ds - {0})"
proof (induction ds arbitrary: seen list)
  case Nil
  then show ?case by simp
next
  case (Cons d ds)
  show ?case
    using Cons.IH [of seen list] Cons.IH [of "insert (deviceIDKey d) seen" "list @ [d]"]
    by (auto simp: Let_def)
qed

lemma resolveOrder_snoc:
  "resolveOrder (ds @ [d]) =
     resolveOrder ds
     @ (if deviceIDKey d = 0 \<or> deviceIDKey d \<in> deviceIDKey ` set ds then [] else [d])"
proof -
  obtain seen list where sl: "add ({}, []) ds = (seen, list)"
    by (cases "add ({}, []) ds")
  have s: "seen = deviceIDKey ` set ds - {0}"
    using fst_add [of "{}" "[]" ds] sl by simp
  have l: "list = resolveOrder ds"
    using snd_add_empty [of ds] sl by simp
  have "resolveOrder (ds @ [d]) = snd (add (seen, list) [d])"
    using sl by (simp add: snd_add_empty [symmetric] add_append)
  then show ?thesis
    using s l by (auto simp: Let_def)
qed

lemma collectBuildLogs_loop_acc:
  "collectBuildLogs_loop env p ds (logs, calls) =
     (logs @ concat (map (deviceSection env p) ds),
      calls @ concat (map (\<lambda>d. snd (GetBuildLog env p d)) ds))"
proof (induction ds arbitrary: logs calls)
  case Nil
  then show ?case by simp
next
  case (Cons d ds)
  show ?case
  proof (cases "GetBuildLog env p d")
    case (Pair r c)
    then show ?thesis
      by (cases r) (simp_all add: Cons.IH deviceSection_def Let_def)
  qed
qed

lemma collectBuildLogs_sections:
  "collectBuildLogs env p ds =
     (concat (map (deviceSection env p) ds), concat (map (\<lambda>d. snd (GetBuildLog env p d)) ds))"
  by (simp add: collectBuildLogs_def collectBuildLogs_loop_acc)

lemma Join_Cons: "Join (s # ss) sep = s @ concat (map (\<lambda>t. sep @ t) ss)"
  by (induction ss arbitrary: s) simp_all

lemma resolveOrder_null_prefix:
  "\<forall>d \<in> set xs. deviceIDKey d = 0 \<Longrightarrow> resolveOrder (xs @ ds) = resolveOrder ds"
  by (induction xs) auto

lemma collectDevicesForLogs_eq:
  "collectDevicesForLogs env h p requested =
     (let u = resolveOrder (slice_get h requested @ slice_get h (devices p))
      in if u \<noteq> [] then (Inr u, [])
         else (case associatedDevices env p of
                 (Inr progDevices, calls) \<Rightarrow> (Inr (resolveOrder progDevices), calls)
               | (Inl err, calls) \<Rightarrow> (Inl err, calls)))"
proof -
  have a: "add (add ({}, []) (slice_get h requested)) (slice_get h (devices p))
         = add ({}, []) (slice_get h requested @ slice_get h (devices p))"
    by (simp add: add_append)
  obtain seen list where sl: "add ({}, []) (slice_get h requested @ slice_get h (devices p)) = (seen, list)"
    by (cases "add ({}, []) (slice_get h requested @ slice_get h (devices p))")
  have l: "list = resolveOrder (slice_get h requested @ slice_get h (devices p))"
    using snd_add_empty [of "slice_get h requested @ slice_get h (devices p)"] sl by simp
  have e: "list = [] \<Longrightarrow> snd (add (seen, list) ds) = resolveOrder ds" for ds
  proof -
    assume n: "list = []"
    have "add (seen, list) ds = add ({}, []) ((slice_get h requested @ slice_get h (devices p)) @ ds)"
      using sl by (simp add: add_append)
    then have "snd (add (seen, list) ds) = resolveOrder ((slice_get h requested @ slice_get h (devices p)) @ ds)"
      by (simp add: snd_add_empty)
    moreover have "\<forall>d \<in> set (slice_get h requested @ slice_get h (devices p)). deviceIDKey d = 0"
      using n l by (simp add: resolveOrder_Nil_iff)
    then have "resolveOrder ((slice_get h requested @ slice_get h (devices p)) @ ds) = resolveOrder ds"
      by (rule resolveOrder_null_prefix)
    ultimately show ?thesis by simp
  qed
  show ?thesis
    unfolding collectDevicesForLogs_def Let_def a sl
    using l e by (auto split: prod.splits sum.splits)
qed

lemma wrapBuildError_Some: "\<exists>e. fst (wrapBuildError env h p code requested) = Some e"
  by (auto simp: wrapBuildError_def Let_def split: prod.splits sum.splits)

lemma BuildProgram_failed:
  assumes "buildStatus env h p devs options \<noteq> CL_SUCCESS"
  shows "BuildProgram env h p devs options =
           (fst (wrapBuildError env h p (buildStatus env h p devs options) devs), p, h,
            CallBuildProgram (clProgram p) (slice_len devs mod 2 ^ 32)
              (if slice_len devs > 0 then Some (buildDeviceIdList env (slice_get h devs)) else None)
              (if options \<noteq> [] then Some options else None)
            # snd (wrapBuildError env h p (buildStatus env h p devs options) devs))"
proof -
  obtain e where e: "fst (wrapBuildError env h p (buildStatus env h p devs options) devs) = Some e"
    using wrapBuildError_Some by blast
  show ?thesis
    using assms e
    by (cases "wrapBuildError env h p (buildStatus env h p devs options) devs")
       (simp add: BuildProgram_def buildStatus_def Let_def)
qed

lemma wrapBuildError_resolved:
  assumes "fst (collectDevicesForLogs env h p requested) = Inr ds"
  shows "wrapBuildError env h p code requested =
           (if concat (map (deviceSection env p) ds) = [] then Some (toError env code)
            else Some (BuildError (Join ((''status='' @ Error env (toError env code))
                                         # concat (map (deviceSection env p) ds)) [CHR 0x0A])),
            snd (collectDevicesForLogs env h p requested)
            @ concat (map (\<lambda>d. snd (GetBuildLog env p d)) ds))"
  using assms
  by (cases "collectDevicesForLogs env h p requested")
     (simp add: wrapBuildError_def collectBuildLogs_sections Let_def)

lemma wrapBuildError_unresolved:
  assumes "fst (collectDevicesForLogs env h p requested) = Inl e"
  shows "wrapBuildError env h p code requested =
           (Some (ErrorString (''cl: build error ('' @ Error env (toError env code)
                               @ ''; log unavailable: '' @ Error env e @ '')'')),
            snd (collectDevicesForLogs env h p requested))"
  using assms
  by (cases "collectDevicesForLogs env h p requested") (simp add: wrapBuildError_def)

lemma associatedDevices_calls:
  "c \<in> set (snd (associatedDevices env p)) \<Longrightarrow> \<exists>n. c = CallGetProgramInfo (clProgram p) n"
  by (auto simp: associatedDevices_def Let_def split: prod.splits if_splits)

lemma wrapIds_filter:
  "wrapIds ids devs = devs @ map (\<lambda>i. Some \<lparr>dev_id = i\<rparr>) (filter (\<lambda>i. i \<noteq> 0) ids)"
  by (induction ids arbitrary: devs) simp_all

lemma associatedDevices_released:
  "clProgram p = 0 \<Longrightarrow> associatedDevices env p = (Inl ErrInvalidProgram, [])"
  by (simp add: associatedDevices_def)

lemma GetBuildLog_released:
  "clProgram p = 0 \<Longrightarrow> GetBuildLog env p d = (Inl ErrInvalidProgram, [])"
  by (simp add: GetBuildLog_def)

lemma associatedDevices_native:
  assumes "clProgram p \<noteq> 0"
    and "clGetProgramInfo_size env (clProgram p) = (CL_SUCCESS, sz)"
    and "clGetProgramInfo_devices env (clProgram p) sz = (CL_SUCCESS, ids)"
    and "length ids = sz div elemSize"
  shows "fst (associatedDevices env p) =
           Inr (map (\<lambda>i. Some \<lparr>dev_id = i\<rparr>) (filter (\<lambda>i. i \<noteq> 0) ids))"
  using assms
  by (auto simp: associatedDevices_def Let_def wrapIds_filter elemSize_def)

lemma nth_split_two:
  assumes "i < j" and "j < length ds"
  shows "ds = take i ds @ [ds ! i] @ take (j - Suc i) (drop (Suc i) ds) @ [ds ! j] @ drop (Suc j) ds"
proof -
  have a: "ds = take i ds @ [ds ! i] @ drop (Suc i) ds"
    using assms by (simp add: id_take_nth_drop)
  have j': "j - Suc i < length (drop (Suc i) ds)"
    using assms by simp
  have b: "drop (Suc i) ds = take (j - Suc i) (drop (Suc i) ds) @ [drop (Suc i) ds ! (j - Suc i)]
             @ drop (Suc (j - Suc i)) (drop (Suc i) ds)"
    using id_take_nth_drop [OF j'] by simp
  have c: "drop (Suc i) ds ! (j - Suc i) = ds ! j"
    using assms by simp
  have d: "drop (Suc (j - Suc i)) (drop (Suc i) ds) = drop (Suc j) ds"
    using assms by simp
  show ?thesis
    using a b c d by metis
qed

lemma BuildProgram_failed_resolved:
  assumes "buildStatus env h p devs options \<noteq> CL_SUCCESS"
    and "fst (collectDevicesForLogs env h p devs) = Inr ds"
  shows "fst (BuildProgram env h p devs options) =
           (if concat (map (deviceSection env p) ds) = []
            then Some (toError env (buildStatus env h p devs options))
            else Some (BuildError (Join
                   ((''status='' @ Error env (toError env (buildStatus env h p devs options)))
                    # concat (map (deviceSection env p) ds)) [CHR 0x0A])))"
  by (simp add: BuildProgram_failed [OF assms(1)] wrapBuildError_resolved [OF assms(2)])

lemma sections_split_two:
  assumes "a < b" and "b < length ds"
  shows "concat (map f ds) =
           concat (map f (take a ds)) @ f (ds ! a)
           @ concat (map f (take (b - Suc a) (drop (Suc a) ds))) @ f (ds ! b)
           @ concat (map f (drop (Suc b) ds))"
proof -
  have "concat (map f ds) =
          concat (map f (take a ds @ [ds ! a] @ take (b - Suc a) (drop (Suc a) ds) @ [ds ! b]
                         @ drop (Suc b) ds))"
    using nth_split_two [OF assms] by simp
  then show ?thesis by simp
qed

lemma safeDeviceLabel_named:
  "Name env d = Some s \<Longrightarrow>
     safeDeviceLabel env (Some d) =
       (if TrimSpace env s \<noteq> [] then TrimSpace env s else syntheticLabel (dev_id d))"
  by (simp add: safeDeviceLabel_def deviceIDKey_def Let_def)

lemma safeDeviceLabel_panic:
  "Name env d = None \<Longrightarrow> safeDeviceLabel env (Some d) = []"
  by (simp add: safeDeviceLabel_def Let_def)

text \<open>
  \<open>BuildProgram\<close> on a Program whose handle is nil, for any native layer: every log query
  and the device query fail with \<open>ErrInvalidProgram\<close>, so the error is the formatted
  \<open>log unavailable\<close> error or a \<open>BuildError\<close>, and never the plain status.
\<close>

lemma released_BuildProgram:
  assumes "clProgram p = 0"
  shows "fst (BuildProgram env h p devs options) =
       (if buildStatus env h p devs options = CL_SUCCESS then None
        else if resolveOrder (slice_get h devs @ slice_get h (devices p)) = []
        then Some (ErrorString (''cl: build error (''
                     @ Error env (toError env (buildStatus env h p devs options))
                     @ ''; log unavailable: '' @ Error env ErrInvalidProgram @ '')''))
        else Some (BuildError (Join
               ((''status='' @ Error env (toError env (buildStatus env h p devs options)))
                # map (\<lambda>d. safeDeviceLabel env d @ '': <unable to fetch build log: ''
                               @ Error env ErrInvalidProgram @ ''>'')
                      (resolveOrder (slice_get h devs @ slice_get h (devices p))))
               [CHR 0x0A])))
   \<and> fst (BuildProgram env h p devs options) \<noteq> Some ErrInvalidProgram"
proof -
  have g: "GetBuildLog env p d = (Inl ErrInvalidProgram, [])" for d
    using assms by (rule GetBuildLog_released)
  have sec: "deviceSection env p d =
               [safeDeviceLabel env d @ '': <unable to fetch build log: ''
                @ Error env ErrInvalidProgram @ ''>'']" for d
    by (simp add: deviceSection_def g)
  have cm: "concat (map (deviceSection env p) ds) =
              map (\<lambda>d. safeDeviceLabel env d @ '': <unable to fetch build log: ''
                         @ Error env ErrInvalidProgram @ ''>'') ds" for ds
    by (induction ds) (simp_all add: sec)
  let ?u = "resolveOrder (slice_get h devs @ slice_get h (devices p))"
  have b: "fst (BuildProgram env h p devs options) =
       (if buildStatus env h p devs options = CL_SUCCESS then None
        else if ?u = []
        then Some (ErrorString (''cl: build error (''
                     @ Error env (toError env (buildStatus env h p devs options))
                     @ ''; log unavailable: '' @ Error env ErrInvalidProgram @ '')''))
        else Some (BuildError (Join
               ((''status='' @ Error env (toError env (buildStatus env h p devs options)))
                # map (\<lambda>d. safeDeviceLabel env d @ '': <unable to fetch build log: ''
                               @ Error env ErrInvalidProgram @ ''>'') ?u)
               [CHR 0x0A])))"
  proof (cases "buildStatus env h p devs options = CL_SUCCESS")
    case True
    then show ?thesis
      using assms
      by (auto simp: BuildProgram_def buildStatus_def alloc_def Let_def associatedDevices_released
               split: prod.splits)
  next
    case failed: False
    show ?thesis
    proof (cases "?u = []")
      case True
      then have "fst (collectDevicesForLogs env h p devs) = Inl ErrInvalidProgram"
        using assms by (simp add: collectDevicesForLogs_eq associatedDevices_released)
      then show ?thesis
        using failed True
        by (simp add: BuildProgram_failed [OF failed] wrapBuildError_unresolved)
    next
      case False
      then have r: "fst (collectDevicesForLogs env h p devs) = Inr ?u"
        by (simp add: collectDevicesForLogs_eq)
      have "map (\<lambda>d. safeDeviceLabel env d @ '': <unable to fetch build log: ''
                         @ Error env ErrInvalidProgram @ ''>'') ?u \<noteq> []"
        using False by simp
      then show ?thesis
        using failed False
        by (simp only: BuildProgram_failed_resolved [OF failed r] cm if_False)
    qed
  qed
  have n: "fst (BuildProgram env h p devs options) \<noteq> Some ErrInvalidProgram"
    unfolding b by simp
  show ?thesis
    using b n by blast
qed

subsection \<open>The fake native layer, evaluated\<close>

lemma fake_GetBuildLog_10:
  "GetBuildLog (fakeNative st) \<lparr>clProgram = 0x1000, devices = s\<rparr> (Some \<lparr>dev_id = 0x10\<rparr>)
     = (Inr ''error: syntax\<newline>'',
        [CallGetProgramBuildInfo 0x1000 0x10 0, CallGetProgramBuildInfo 0x1000 0x10 15])"
  by (simp add: GetBuildLog_def fakeNative_def CL_SUCCESS_def Let_def)

lemma fake_GetBuildLog_20:
  "GetBuildLog (fakeNative st) \<lparr>clProgram = 0x1000, devices = s\<rparr> (Some \<lparr>dev_id = 0x20\<rparr>)
     = (Inr [], [CallGetProgramBuildInfo 0x1000 0x20 0])"
  by (simp add: GetBuildLog_def fakeNative_def CL_SUCCESS_def Let_def)

lemma fake_GetBuildLog_30:
  "GetBuildLog (fakeNative st) \<lparr>clProgram = 0x1000, devices = s\<rparr> (Some \<lparr>dev_id = 0x30\<rparr>)
     = (Inl ErrInvalidDevice, [CallGetProgramBuildInfo 0x1000 0x30 0])"
  by (simp add: GetBuildLog_def fakeNative_def fakeToError_def CL_SUCCESS_def Let_def)

lemma fake_label_10: "safeDeviceLabel (fakeNative st) (Some \<lparr>dev_id = 0x10\<rparr>) = ''GPU0''"
  by (simp add: safeDeviceLabel_def fakeNative_def trimSpaceAscii_def isSpaceAscii_def Let_def)

lemma fake_label_30: "safeDeviceLabel (fakeNative st) (Some \<lparr>dev_id = 0x30\<rparr>) = ''device@0x30''"
  by (simp add: safeDeviceLabel_def syntheticLabel_def deviceIDKey_def hexNat.simps hexDigit_def
      fakeNative_def trimSpaceAscii_def isSpaceAscii_def Let_def)

lemma fake_TrimSpace_log:
  "TrimSpace (fakeNative st) ''error: syntax\<newline>'' = ''error: syntax''"
  "TrimSpace (fakeNative st) [] = []"
  by (simp_all add: fakeNative_def trimSpaceAscii_def isSpaceAscii_def)

lemma fake_section_10:
  "deviceSection (fakeNative st) \<lparr>clProgram = 0x1000, devices = s\<rparr> (Some \<lparr>dev_id = 0x10\<rparr>)
     = [''GPU0:\<newline>error: syntax'']"
  unfolding deviceSection_def fake_GetBuildLog_10 fake_label_10
  by (simp add: fake_TrimSpace_log)

lemma fake_section_20:
  "deviceSection (fakeNative st) \<lparr>clProgram = 0x1000, devices = s\<rparr> (Some \<lparr>dev_id = 0x20\<rparr>) = []"
  unfolding deviceSection_def fake_GetBuildLog_20
  by (simp add: fake_TrimSpace_log)

lemma fake_section_30:
  "deviceSection (fakeNative st) \<lparr>clProgram = 0x1000, devices = s\<rparr> (Some \<lparr>dev_id = 0x30\<rparr>)
     = [''device@0x30: <unable to fetch build log: cl: Invalid Device>'']"
  unfolding deviceSection_def fake_GetBuildLog_30 fake_label_30
  by (simp add: fakeNative_def)

lemma fake_associatedDevices:
  "associatedDevices (fakeNative st) \<lparr>clProgram = 0x1000, devices = s\<rparr>
     = (Inr [Some \<lparr>dev_id = 0x10\<rparr>, Some \<lparr>dev_id = 0x20\<rparr>],
        [CallGetProgramInfo 0x1000 0, CallGetProgramInfo 0x1000 16])"
  by (simp add: associatedDevices_def elemSize_def fakeNative_def CL_SUCCESS_def Let_def)

lemma fake_status:
  "buildStatus (fakeNative st) h \<lparr>clProgram = 0x1000, devices = s\<rparr> devs options = st"
  by (simp add: buildStatus_def fakeNative_def)

lemma fake_status_text:
  "Error (fakeNative st) (toError (fakeNative st) (-11)) = ''cl: Build Program Failure''"
  by (simp add: fakeNative_def fakeToError_def)

section \<open>The claims\<close>

subsection \<open>C1: the operations on a released Program\<close>

text \<open>
  Claim C1 says that \<open>BuildProgram\<close>, \<open>CreateKernel\<close> and \<open>GetBuildLog\<close> on a released
  Program fail with \<open>ErrInvalidProgram\<close>. \<open>GetBuildLog\<close> and \<open>associatedDevices\<close> test the handle
  and return \<open>ErrInvalidProgram\<close>; \<open>BuildProgram\<close> has no such test. Here the Program is
  released, the native layer answers the nil handle with the status \<open>-44\<close> (invalid
  program) and the translator maps that status to \<open>ErrInvalidProgram\<close>. \<open>GetBuildLog\<close> and
  \<open>CreateKernel\<close> fail with \<open>ErrInvalidProgram\<close>. \<open>BuildProgram\<close> with no devices returns the
  formatted \<open>log unavailable\<close> error, and with two devices a \<open>BuildError\<close>; neither is
  \<open>ErrInvalidProgram\<close>.
\<close>

theorem released_BuildProgram_not_InvalidProgram:
  "clProgram (fst (Release \<lparr>clProgram = 0x1000, devices = NilSlice\<rparr>)) = 0
   \<and> buildStatus (fakeNative (-11)) [] (fst (Release \<lparr>clProgram = 0x1000, devices = NilSlice\<rparr>))
       NilSlice [] = -44
   \<and> toError (fakeNative (-11)) (-44) = ErrInvalidProgram
   \<and> fst (GetBuildLog (fakeNative (-11)) (fst (Release \<lparr>clProgram = 0x1000, devices = NilSlice\<rparr>))
            (Some \<lparr>dev_id = 0x10\<rparr>)) = Inl ErrInvalidProgram
   \<and> fst (CreateKernel (fakeNative (-11)) (fst (Release \<lparr>clProgram = 0x1000, devices = NilSlice\<rparr>))
            ''main'') = Inl ErrInvalidProgram
   \<and> fst (BuildProgram (fakeNative (-11)) []
            (fst (Release \<lparr>clProgram = 0x1000, devices = NilSlice\<rparr>)) NilSlice [])
       = Some (ErrorString ''cl: build error (cl: Invalid Program; log unavailable: cl: Invalid Program)'')
   \<and> fst (BuildProgram (fakeNative (-11)) []
            (fst (Release \<lparr>clProgram = 0x1000, devices = NilSlice\<rparr>)) NilSlice [])
       \<noteq> Some ErrInvalidProgram
   \<and> fst (BuildProgram (fakeNative (-11)) [[Some \<lparr>dev_id = 0x10\<rparr>, Some \<lparr>dev_id = 0x30\<rparr>]]
            (fst (Release \<lparr>clProgram = 0x1000, devices = NilSlice\<rparr>)) (Slice 0 0 2) [])
       = Some (BuildError ''status=cl: Invalid Program\<newline>GPU0: <unable to fetch build log: cl: Invalid Program>\<newline>device@0x30: <unable to fetch build log: cl: Invalid Program>'')"
proof -
  let ?p = "fst (Release \<lparr>clProgram = 0x1000, devices = NilSlice\<rparr>)"
  let ?h = "[[Some \<lparr>dev_id = 0x10\<rparr>, Some \<lparr>dev_id = (0x30 :: 64 word)\<rparr>]]"
  have p: "?p = \<lparr>clProgram = 0, devices = NilSlice\<rparr>"
    by (simp add: Release_def releaseProgram_def)
  have z: "clProgram ?p = 0"
    by (simp add: p)
  have s: "buildStatus (fakeNative (-11)) [] ?p NilSlice [] = -44"
    by (simp add: p buildStatus_def fakeNative_def)
  have s2: "buildStatus (fakeNative (-11)) ?h ?p (Slice 0 0 2) [] = -44"
    by (simp add: p buildStatus_def fakeNative_def)
  have t: "toError (fakeNative (-11)) (-44) = ErrInvalidProgram"
    by (simp add: fakeNative_def fakeToError_def)
  have x: "errorText (fakeNative (-11)) ErrInvalidProgram = ''cl: Invalid Program''"
    by (simp add: fakeNative_def)
  have g: "fst (GetBuildLog (fakeNative (-11)) ?p (Some \<lparr>dev_id = 0x10\<rparr>)) = Inl ErrInvalidProgram"
    by (simp add: GetBuildLog_released [OF z])
  have k: "fst (CreateKernel (fakeNative (-11)) ?p ''main'') = Inl ErrInvalidProgram"
    by (simp add: p CreateKernel_def fakeNative_def fakeToError_def CL_SUCCESS_def)
  have u0: "resolveOrder (slice_get [] NilSlice @ slice_get [] (devices ?p)) = []"
    by (simp add: p)
  have u: "resolveOrder (slice_get ?h (Slice 0 0 2) @ slice_get ?h (devices ?p))
             = [Some \<lparr>dev_id = 0x10\<rparr>, Some \<lparr>dev_id = 0x30\<rparr>]"
    by (simp add: p deviceIDKey_def)
  have b: "fst (BuildProgram (fakeNative (-11)) [] ?p NilSlice [])
       = Some (ErrorString ''cl: build error (cl: Invalid Program; log unavailable: cl: Invalid Program)'')"
    using released_BuildProgram [OF z, of "fakeNative (-11)" "[]" NilSlice "[]"]
    unfolding s u0 t
    by (simp add: x CL_SUCCESS_def)
  have m: "fst (BuildProgram (fakeNative (-11)) ?h ?p (Slice 0 0 2) [])
       = Some (BuildError ''status=cl: Invalid Program\<newline>GPU0: <unable to fetch build log: cl: Invalid Program>\<newline>device@0x30: <unable to fetch build log: cl: Invalid Program>'')"
    using released_BuildProgram [OF z, of "fakeNative (-11)" ?h "Slice 0 0 2" "[]"]
    unfolding s2 u t
    by (simp add: x fake_label_10 fake_label_30 CL_SUCCESS_def)
  have n: "fst (BuildProgram (fakeNative (-11)) [] ?p NilSlice []) \<noteq> Some ErrInvalidProgram"
    by (simp add: b)
  show ?thesis
    using z s t g k b n m by blast
qed

subsection \<open>C2: the label of a device whose name panics\<close>

text \<open>
  Claim C2 says that the label of a device whose name resolution panics is the synthetic
  label \<open>device@0x<token>\<close>. The code recovers the panic, so none escapes, and the
  deferred closure assigns the synthetic label to the local variable \<open>label\<close>; the result
  of the function is unnamed and keeps its zero value. For the device \<open>0x2a\<close>, whose name
  panics in the fake native layer, the label is the empty string and not \<open>device@0x2a\<close>.
\<close>

theorem safeDeviceLabel_panic_empty:
  "Name (fakeNative (-11)) \<lparr>dev_id = 0x2a\<rparr> = None
   \<and> safeDeviceLabel (fakeNative (-11)) (Some \<lparr>dev_id = 0x2a\<rparr>) = []
   \<and> syntheticLabel (deviceIDKey (Some \<lparr>dev_id = 0x2a\<rparr>)) = ''device@0x2a''
   \<and> safeDeviceLabel (fakeNative (-11)) (Some \<lparr>dev_id = 0x2a\<rparr>)
       \<noteq> syntheticLabel (deviceIDKey (Some \<lparr>dev_id = 0x2a\<rparr>))"
  by (simp add: safeDeviceLabel_def syntheticLabel_def deviceIDKey_def hexNat.simps hexDigit_def
      fakeNative_def Let_def)

subsection \<open>C3: no device and no discovery\<close>

text \<open>
  Claim C3, as amended. When the native build fails, no requested or cached device has an
  identity token (resolution yields no device) and the device query fails with \<open>e\<close>,
  \<open>BuildProgram\<close> returns the error built by \<open>fmt.Errorf\<close> whose text is
  \<open>cl: build error (<status>; log unavailable: <e>)\<close>, with the text of the translated build
  status and the text of \<open>e\<close>. That error is a string: it is neither a \<open>BuildError\<close> nor a
  StatusError. No build log is queried.
\<close>

theorem BuildProgram_total_fallback:
  assumes "buildStatus env h p devs options \<noteq> CL_SUCCESS"
    and "\<forall>d \<in> set (slice_get h devs @ slice_get h (devices p)). deviceIDKey d = 0"
    and "fst (associatedDevices env p) = Inl e"
  shows "(case BuildProgram env h p devs options of (err, p1, h1, calls) \<Rightarrow>
            err = Some (ErrorString (''cl: build error (''
                          @ Error env (toError env (buildStatus env h p devs options))
                          @ ''; log unavailable: '' @ Error env e @ '')''))
            \<and> (\<forall>s. err \<noteq> Some (BuildError s))
            \<and> (\<forall>e1. err = Some e1 \<longrightarrow> \<not> isStatusError e1)
            \<and> (\<forall>prog d n. CallGetProgramBuildInfo prog d n \<notin> set calls))"
proof -
  have r: "resolveOrder (slice_get h devs @ slice_get h (devices p)) = []"
    using assms(2) by (simp only: resolveOrder_Nil_iff)
  have c: "collectDevicesForLogs env h p devs = (Inl e, snd (associatedDevices env p))"
    using r assms(3)
    by (cases "associatedDevices env p") (simp add: collectDevicesForLogs_eq)
  have n: "CallGetProgramBuildInfo prog d n \<notin> set (snd (associatedDevices env p))" for prog d n
    using associatedDevices_calls [of "CallGetProgramBuildInfo prog d n" env p] by auto
  show ?thesis
    using n by (simp add: BuildProgram_failed [OF assms(1)] wrapBuildError_unresolved c)
qed

theorem BuildProgram_total_fallback_witness:
  "buildStatus (fakeNative (-11)) [] \<lparr>clProgram = 0x2000, devices = NilSlice\<rparr> NilSlice ''-O2'' \<noteq> CL_SUCCESS
   \<and> slice_get [] NilSlice @ slice_get [] (devices \<lparr>clProgram = 0x2000, devices = NilSlice\<rparr>) = []
   \<and> fst (associatedDevices (fakeNative (-11)) \<lparr>clProgram = 0x2000, devices = NilSlice\<rparr>) = Inl (ErrStatus (-30))
   \<and> fst (BuildProgram (fakeNative (-11)) [] \<lparr>clProgram = 0x2000, devices = NilSlice\<rparr> NilSlice ''-O2'')
       = Some (ErrorString ''cl: build error (cl: Build Program Failure; log unavailable: cl: Invalid Value)'')"
proof -
  let ?q = "\<lparr>clProgram = 0x2000, devices = NilSlice\<rparr>"
  have f: "buildStatus (fakeNative (-11)) [] ?q NilSlice ''-O2'' \<noteq> CL_SUCCESS"
    by (simp add: buildStatus_def fakeNative_def CL_SUCCESS_def)
  have v: "buildStatus (fakeNative (-11)) [] ?q NilSlice ''-O2'' = -11"
    by (simp add: buildStatus_def fakeNative_def)
  have z: "\<forall>d \<in> set (slice_get [] NilSlice @ slice_get [] (devices ?q)). deviceIDKey d = 0"
    by simp
  have a: "fst (associatedDevices (fakeNative (-11)) ?q) = Inl (ErrStatus (-30))"
    by (simp add: associatedDevices_def elemSize_def fakeNative_def fakeToError_def CL_SUCCESS_def Let_def)
  have t: "toError (fakeNative (-11)) (-11) = ErrStatus (-11)"
    by (simp add: fakeNative_def fakeToError_def)
  have x: "errorText (fakeNative (-11)) (ErrStatus (-11)) = ''cl: Build Program Failure''"
       "errorText (fakeNative (-11)) (ErrStatus (-30)) = ''cl: Invalid Value''"
    by (simp_all add: fakeNative_def)
  show ?thesis
    using f a BuildProgram_total_fallback [OF f z a]
    by (simp add: v t x split: prod.splits)
qed

text \<open>
  The claim as stated says that the error returned is a StatusError. For the program
  \<open>0x2000\<close> of the fake native layer, whose device query fails, the failed build returns
  the formatted error, which is no StatusError and is not the translated build status.
\<close>

theorem BuildProgram_total_fallback_counterexample:
  "fst (BuildProgram (fakeNative (-11)) [] \<lparr>clProgram = 0x2000, devices = NilSlice\<rparr> NilSlice ''-O2'')
     = Some (ErrorString ''cl: build error (cl: Build Program Failure; log unavailable: cl: Invalid Value)'')
   \<and> \<not> isStatusError
         (ErrorString ''cl: build error (cl: Build Program Failure; log unavailable: cl: Invalid Value)'')
   \<and> toError (fakeNative (-11))
         (buildStatus (fakeNative (-11)) [] \<lparr>clProgram = 0x2000, devices = NilSlice\<rparr> NilSlice ''-O2'')
       = ErrStatus (-11)
   \<and> fst (BuildProgram (fakeNative (-11)) [] \<lparr>clProgram = 0x2000, devices = NilSlice\<rparr> NilSlice ''-O2'')
     \<noteq> Some (ErrStatus (-11))"
proof -
  let ?q = "\<lparr>clProgram = 0x2000, devices = NilSlice\<rparr>"
  have v: "buildStatus (fakeNative (-11)) [] ?q NilSlice ''-O2'' = -11"
    by (simp add: buildStatus_def fakeNative_def)
  have f: "buildStatus (fakeNative (-11)) [] ?q NilSlice ''-O2'' \<noteq> CL_SUCCESS"
    by (simp add: v CL_SUCCESS_def)
  have a: "associatedDevices (fakeNative (-11)) ?q
             = (Inl (ErrStatus (-30)), [CallGetProgramInfo 0x2000 0])"
    by (simp add: associatedDevices_def elemSize_def fakeNative_def fakeToError_def CL_SUCCESS_def Let_def)
  have c: "fst (collectDevicesForLogs (fakeNative (-11)) [] ?q NilSlice) = Inl (ErrStatus (-30))"
    by (simp add: collectDevicesForLogs_eq a)
  have t: "toError (fakeNative (-11)) (-11) = ErrStatus (-11)"
    by (simp add: fakeNative_def fakeToError_def)
  have x: "errorText (fakeNative (-11)) (ErrStatus (-11)) = ''cl: Build Program Failure''"
       "errorText (fakeNative (-11)) (ErrStatus (-30)) = ''cl: Invalid Value''"
    by (simp_all add: fakeNative_def)
  have b: "fst (BuildProgram (fakeNative (-11)) [] ?q NilSlice ''-O2'')
     = Some (ErrorString ''cl: build error (cl: Build Program Failure; log unavailable: cl: Invalid Value)'')"
    by (simp add: BuildProgram_failed [OF f] wrapBuildError_unresolved [OF c] v t x)
  show ?thesis
    using b by (simp add: v t)
qed

subsection \<open>C4: the devices resolved for the logs\<close>

text \<open>
  Claim C4, as amended. The devices resolved for the logs are the requested devices followed
  by the cached ones, without the devices that have no identity token, each token once, the
  first occurrence kept and the order kept. When there is none, they are the devices of the
  device query, resolved in the same way, and the resolution fails when that query fails.
  In particular, for three distinct tokens that are not nil, requested \<open>[d1, d2]\<close> and
  cached \<open>[d2, d3]\<close> resolve to \<open>[d1, d2, d3]\<close>.
\<close>

theorem collectDevicesForLogs_resolution:
  "fst (collectDevicesForLogs env h p requested) =
     (if resolveOrder (slice_get h requested @ slice_get h (devices p)) \<noteq> []
      then Inr (resolveOrder (slice_get h requested @ slice_get h (devices p)))
      else (case fst (associatedDevices env p) of
              Inr progDevices \<Rightarrow> Inr (resolveOrder progDevices)
            | Inl err \<Rightarrow> Inl err))
   \<and> (k1 \<noteq> 0 \<and> k2 \<noteq> 0 \<and> k3 \<noteq> 0 \<and> k1 \<noteq> k2 \<and> k1 \<noteq> k3 \<and> k2 \<noteq> k3 \<longrightarrow>
        resolveOrder ([Some \<lparr>dev_id = k1\<rparr>, Some \<lparr>dev_id = k2\<rparr>]
                      @ [Some \<lparr>dev_id = k2\<rparr>, Some \<lparr>dev_id = k3\<rparr>])
          = [Some \<lparr>dev_id = k1\<rparr>, Some \<lparr>dev_id = k2\<rparr>, Some \<lparr>dev_id = k3\<rparr>])"
  by (cases "associatedDevices env p")
     (auto simp: collectDevicesForLogs_eq Let_def deviceIDKey_def split: sum.splits)

theorem collectDevicesForLogs_resolution_witness:
  "fst (collectDevicesForLogs (fakeNative (-11))
          [[Some \<lparr>dev_id = 0x10\<rparr>, Some \<lparr>dev_id = 0x20\<rparr>], [Some \<lparr>dev_id = 0x20\<rparr>, Some \<lparr>dev_id = 0x30\<rparr>]]
          \<lparr>clProgram = 0x1000, devices = Slice 1 0 2\<rparr> (Slice 0 0 2))
     = Inr [Some \<lparr>dev_id = 0x10\<rparr>, Some \<lparr>dev_id = 0x20\<rparr>, Some \<lparr>dev_id = 0x30\<rparr>]"
  using collectDevicesForLogs_resolution
          [of "fakeNative (-11)"
              "[[Some \<lparr>dev_id = 0x10\<rparr>, Some \<lparr>dev_id = 0x20\<rparr>], [Some \<lparr>dev_id = 0x20\<rparr>, Some \<lparr>dev_id = 0x30\<rparr>]]"
              "\<lparr>clProgram = 0x1000, devices = Slice 1 0 2\<rparr>" "Slice 0 0 2" "0x10" "0x20" "0x30"]
  by (simp add: deviceIDKey_def)

text \<open>
  The claim as stated, with the union alone, fails in the end-to-end scenario of the
  specification: nothing requested, nothing cached, and the device query gives two devices.
  The resolved devices are those two, and the union of the requested and cached is empty.
\<close>

theorem collectDevicesForLogs_union_counterexample:
  "fst (collectDevicesForLogs (fakeNative (-11)) []
          \<lparr>clProgram = 0x1000, devices = NilSlice\<rparr> NilSlice)
     = Inr [Some \<lparr>dev_id = 0x10\<rparr>, Some \<lparr>dev_id = 0x20\<rparr>]
   \<and> fst (collectDevicesForLogs (fakeNative (-11)) []
          \<lparr>clProgram = 0x1000, devices = NilSlice\<rparr> NilSlice)
     \<noteq> Inr (resolveOrder (slice_get [] NilSlice
                           @ slice_get [] (devices \<lparr>clProgram = 0x1000, devices = NilSlice\<rparr>)))"
  by (simp add: collectDevicesForLogs_eq fake_associatedDevices deviceIDKey_def)

subsection \<open>C5: the composite build error\<close>

text \<open>
  Claim C5. When the native build fails and the devices resolve to \<open>ds\<close>, the sections are
  those of the devices of \<open>ds\<close>, in that order. With no section, \<open>BuildProgram\<close> returns the
  translated status. Otherwise it returns the \<open>BuildError\<close> whose string is the line
  \<open>status=<text of the translated status>\<close> and the sections, joined by newlines. A device
  whose log is fetched contributes \<open><label>\<close>, a colon, a newline and the trimmed log, and
  nothing when the trimmed log is empty.
\<close>

theorem BuildProgram_composite:
  assumes "buildStatus env h p devs options \<noteq> CL_SUCCESS"
    and "fst (collectDevicesForLogs env h p devs) = Inr ds"
  shows "fst (BuildProgram env h p devs options) =
           (if concat (map (deviceSection env p) ds) = []
            then Some (toError env (buildStatus env h p devs options))
            else Some (BuildError (Join
                   ((''status='' @ Error env (toError env (buildStatus env h p devs options)))
                    # concat (map (deviceSection env p) ds)) [CHR 0x0A])))
         \<and> (\<forall>d lg. fst (GetBuildLog env p d) = Inr lg \<longrightarrow>
               deviceSection env p d =
                 (if TrimSpace env lg = [] then []
                  else [safeDeviceLabel env d @ '':'' @ [CHR 0x0A] @ TrimSpace env lg]))"
  using BuildProgram_failed_resolved [OF assms] by (simp add: deviceSection_def)

theorem BuildProgram_composite_witness:
  "buildStatus (fakeNative (-11)) [] \<lparr>clProgram = 0x1000, devices = NilSlice\<rparr> NilSlice ''-O2''
     \<noteq> CL_SUCCESS
   \<and> fst (collectDevicesForLogs (fakeNative (-11)) [] \<lparr>clProgram = 0x1000, devices = NilSlice\<rparr> NilSlice)
       = Inr [Some \<lparr>dev_id = 0x10\<rparr>, Some \<lparr>dev_id = 0x20\<rparr>]
   \<and> fst (BuildProgram (fakeNative (-11)) [] \<lparr>clProgram = 0x1000, devices = NilSlice\<rparr> NilSlice ''-O2'')
       = Some (BuildError ''status=cl: Build Program Failure\<newline>GPU0:\<newline>error: syntax'')"
proof -
  let ?p = "\<lparr>clProgram = 0x1000, devices = NilSlice\<rparr>"
  have f: "buildStatus (fakeNative (-11)) [] ?p NilSlice ''-O2'' \<noteq> CL_SUCCESS"
    by (simp add: fake_status CL_SUCCESS_def)
  have r: "fst (collectDevicesForLogs (fakeNative (-11)) [] ?p NilSlice)
             = Inr [Some \<lparr>dev_id = 0x10\<rparr>, Some \<lparr>dev_id = 0x20\<rparr>]"
    by (simp add: collectDevicesForLogs_eq fake_associatedDevices deviceIDKey_def)
  show ?thesis
    using f r BuildProgram_composite [OF f r]
    by (simp add: fake_status fake_status_text fake_section_10 fake_section_20)
qed

subsection \<open>C6: a successful build with explicit devices caches a copy of them\<close>

text \<open>
  Claim C6. When the native build succeeds and the list of devices is not empty,
  \<open>BuildProgram\<close> returns no error and the cached list reads as the list passed: same
  devices, same order, duplicates kept. The only native call is the build, so the device
  query plays no part. The cache is a copy: after a write through any slice that was valid
  before the call, the caller's included, the cached list still reads as the list passed.
\<close>

theorem BuildProgram_caches_requested:
  assumes "buildStatus env h p devs options = CL_SUCCESS"
    and "0 < slice_len devs"
  shows "(case BuildProgram env h p devs options of (err, p1, h1, calls) \<Rightarrow>
            err = None
            \<and> clProgram p1 = clProgram p
            \<and> slice_get h1 (devices p1) = slice_get h devs
            \<and> (\<forall>c \<in> set calls. \<exists>a n ids opts. c = CallBuildProgram a n ids opts)
            \<and> (\<forall>s i v h2. slice_ok h s \<and> slice_store h1 s i v = Some h2
                  \<longrightarrow> slice_get h2 (devices p1) = slice_get h devs))"
proof -
  have b: "BuildProgram env h p devs options =
             (None, p\<lparr>devices := Slice (length h) 0 (length (slice_get h devs))\<rparr>,
              h @ [slice_get h devs],
              [CallBuildProgram (clProgram p) (slice_len devs mod 2 ^ 32)
                 (Some (buildDeviceIdList env (slice_get h devs)))
                 (if options \<noteq> [] then Some options else None)])"
    using assms by (simp add: BuildProgram_def buildStatus_def alloc_def Let_def)
  have c: "slice_get (h @ [slice_get h devs]) (Slice (length h) 0 (length (slice_get h devs)))
             = slice_get h devs"
    by simp
  have w: "slice_get h2 (Slice (length h) 0 (length (slice_get h devs))) = slice_get h devs"
    if ok: "slice_ok h s" and st: "slice_store (h @ [slice_get h devs]) s i v = Some h2"
    for s i v h2
  proof (cases s)
    case NilSlice
    then show ?thesis using st by simp
  next
    case (Slice a off n)
    then have a: "a < length h" using ok by simp
    have "h2 = (h @ [slice_get h devs])[a := ((h @ [slice_get h devs]) ! a)[off + i := v]]"
      using st Slice by (simp split: if_splits)
    then have "h2 ! length h = slice_get h devs" and "length h < length h2"
      using a by (simp_all add: nth_list_update nth_append)
    then show ?thesis by simp
  qed
  show ?thesis
    unfolding b using c w
    by (simp del: slice_get.simps slice_store.simps slice_ok.simps) blast
qed

theorem BuildProgram_caches_requested_witness:
  "buildStatus (fakeNative 0) [[Some \<lparr>dev_id = 0x20\<rparr>, Some \<lparr>dev_id = 0x10\<rparr>, Some \<lparr>dev_id = 0x20\<rparr>]]
       \<lparr>clProgram = 0x1000, devices = NilSlice\<rparr> (Slice 0 0 3) [] = CL_SUCCESS
   \<and> 0 < slice_len (Slice 0 0 3)
   \<and> slice_ok [[Some \<lparr>dev_id = 0x20\<rparr>, Some \<lparr>dev_id = 0x10\<rparr>, Some \<lparr>dev_id = 0x20\<rparr>]] (Slice 0 0 3)
   \<and> (case BuildProgram (fakeNative 0) [[Some \<lparr>dev_id = 0x20\<rparr>, Some \<lparr>dev_id = 0x10\<rparr>, Some \<lparr>dev_id = 0x20\<rparr>]]
              \<lparr>clProgram = 0x1000, devices = NilSlice\<rparr> (Slice 0 0 3) [] of
         (err, p1, h1, calls) \<Rightarrow>
           err = None
           \<and> slice_get h1 (devices p1) = [Some \<lparr>dev_id = 0x20\<rparr>, Some \<lparr>dev_id = 0x10\<rparr>, Some \<lparr>dev_id = 0x20\<rparr>]
           \<and> (\<forall>i v h2. slice_store h1 (Slice 0 0 3) i v = Some h2
                  \<longrightarrow> slice_get h2 (devices p1) = [Some \<lparr>dev_id = 0x20\<rparr>, Some \<lparr>dev_id = 0x10\<rparr>, Some \<lparr>dev_id = 0x20\<rparr>]))"
proof -
  let ?h = "[[Some \<lparr>dev_id = 0x20\<rparr>, Some \<lparr>dev_id = 0x10\<rparr>, Some \<lparr>dev_id = (0x20 :: 64 word)\<rparr>]]"
  let ?p = "\<lparr>clProgram = 0x1000, devices = NilSlice\<rparr>"
  have f: "buildStatus (fakeNative 0) ?h ?p (Slice 0 0 3) [] = CL_SUCCESS"
    by (simp add: buildStatus_def fakeNative_def CL_SUCCESS_def)
  have g: "0 < slice_len (Slice 0 0 3)" by simp
  have k: "slice_ok ?h (Slice 0 0 3)" by simp
  have v: "slice_get ?h (Slice 0 0 3) = [Some \<lparr>dev_id = 0x20\<rparr>, Some \<lparr>dev_id = 0x10\<rparr>, Some \<lparr>dev_id = 0x20\<rparr>]"
    by simp
  show ?thesis
    using f g k BuildProgram_caches_requested [OF f g]
    unfolding v
    by (simp del: slice_get.simps slice_store.simps slice_ok.simps split: prod.splits)
qed

subsection \<open>C7: a successful build without devices caches the discovered ones\<close>

text \<open>
  Claim C7. When the native build succeeds, the list of devices is empty and the Program
  has no cached devices, \<open>BuildProgram\<close> returns no error and the cached list is what the
  device query \<open>associatedDevices\<close> returns, and empty when that query fails: the failure
  is not reported. In terms of the native layer: when the handle is present and both native
  calls of the query succeed, the cached list is the devices the native layer wrote, in
  its order, the nil entries left out.
\<close>

theorem BuildProgram_auto_discovery:
  assumes "buildStatus env h p devs options = CL_SUCCESS"
    and "slice_len devs = 0"
    and "slice_len (devices p) = 0"
  shows "(case BuildProgram env h p devs options of (err, p1, h1, calls) \<Rightarrow>
            err = None
            \<and> clProgram p1 = clProgram p
            \<and> slice_get h1 (devices p1) =
                (case fst (associatedDevices env p) of Inr ds \<Rightarrow> ds | Inl e \<Rightarrow> [])
            \<and> (\<forall>sz ids.
                  clProgram p \<noteq> 0
                  \<and> clGetProgramInfo_size env (clProgram p) = (CL_SUCCESS, sz)
                  \<and> clGetProgramInfo_devices env (clProgram p) sz = (CL_SUCCESS, ids)
                  \<and> length ids = sz div elemSize
                  \<longrightarrow> slice_get h1 (devices p1) =
                        map (\<lambda>i. Some \<lparr>dev_id = i\<rparr>) (filter (\<lambda>i. i \<noteq> 0) ids)))"
proof -
  have e: "slice_get h (devices p) = []"
    using assms(3) by (cases "devices p") simp_all
  have m: "(case BuildProgram env h p devs options of (err, p1, h1, calls) \<Rightarrow>
            err = None
            \<and> clProgram p1 = clProgram p
            \<and> slice_get h1 (devices p1) =
                (case fst (associatedDevices env p) of Inr ds \<Rightarrow> ds | Inl e \<Rightarrow> []))"
  proof (cases "associatedDevices env p")
    case (Pair r c)
    show ?thesis
    proof (cases r)
      case (Inl err)
      then show ?thesis
        using assms Pair e by (simp add: BuildProgram_def buildStatus_def Let_def)
    next
      case (Inr ds)
      then show ?thesis
        using assms Pair e
        by (cases "ds = []") (simp_all add: BuildProgram_def buildStatus_def alloc_def Let_def)
    qed
  qed
  show ?thesis
    using m by (auto simp: associatedDevices_native split: prod.splits)
qed

theorem BuildProgram_auto_discovery_witness:
  "buildStatus (fakeNative 0) [] \<lparr>clProgram = 0x1000, devices = NilSlice\<rparr> NilSlice ''-O2'' = CL_SUCCESS
   \<and> slice_len NilSlice = 0
   \<and> slice_len (devices \<lparr>clProgram = 0x1000, devices = NilSlice\<rparr>) = 0
   \<and> (case BuildProgram (fakeNative 0) [] \<lparr>clProgram = 0x1000, devices = NilSlice\<rparr> NilSlice ''-O2'' of
         (err, p1, h1, calls) \<Rightarrow>
           err = None
           \<and> slice_get h1 (devices p1) = [Some \<lparr>dev_id = 0x10\<rparr>, Some \<lparr>dev_id = 0x20\<rparr>])
   \<and> buildStatus (fakeNative 0) [] \<lparr>clProgram = 0x2000, devices = NilSlice\<rparr> NilSlice ''-O2'' = CL_SUCCESS
   \<and> fst (associatedDevices (fakeNative 0) \<lparr>clProgram = 0x2000, devices = NilSlice\<rparr>) = Inl (ErrStatus (-30))
   \<and> (case BuildProgram (fakeNative 0) [] \<lparr>clProgram = 0x2000, devices = NilSlice\<rparr> NilSlice ''-O2'' of
         (err, p1, h1, calls) \<Rightarrow> err = None \<and> slice_get h1 (devices p1) = [])"
proof -
  let ?p = "\<lparr>clProgram = 0x1000, devices = NilSlice\<rparr>"
  let ?q = "\<lparr>clProgram = 0x2000, devices = NilSlice\<rparr>"
  have f: "buildStatus (fakeNative 0) [] ?p NilSlice ''-O2'' = CL_SUCCESS"
    by (simp add: buildStatus_def fakeNative_def CL_SUCCESS_def)
  have f2: "buildStatus (fakeNative 0) [] ?q NilSlice ''-O2'' = CL_SUCCESS"
    by (simp add: buildStatus_def fakeNative_def CL_SUCCESS_def)
  have g: "slice_len NilSlice = 0" by simp
  have k: "slice_len (devices ?p) = 0" by simp
  have k2: "slice_len (devices ?q) = 0" by simp
  have a: "fst (associatedDevices (fakeNative 0) ?p) = Inr [Some \<lparr>dev_id = 0x10\<rparr>, Some \<lparr>dev_id = 0x20\<rparr>]"
    by (simp add: associatedDevices_def elemSize_def fakeNative_def CL_SUCCESS_def Let_def)
  have a2: "fst (associatedDevices (fakeNative 0) ?q) = Inl (ErrStatus (-30))"
    by (simp add: associatedDevices_def elemSize_def fakeNative_def fakeToError_def CL_SUCCESS_def Let_def)
  show ?thesis
    using f g k a a2 f2 BuildProgram_auto_discovery [OF f g k] BuildProgram_auto_discovery [OF f2 g k2]
    by (simp split: prod.splits)
qed

subsection \<open>C8: a failed log query does not stop the collection\<close>

text \<open>
  Claim C8. In a failed build whose devices resolve to \<open>ds\<close>, let the log query fail with
  \<open>e\<close> for the device at position \<open>i\<close> and give a log that is not empty once trimmed for the
  device at another position \<open>j\<close>. Then \<open>BuildProgram\<close> returns a \<open>BuildError\<close> that holds the
  section \<open><label>: <unable to fetch build log: <e>>\<close> of the first device and the section
  \<open><label>\<close>, colon, newline, trimmed log of the second, in the order of the two devices in
  \<open>ds\<close>, between the sections of the devices before, between and after them.
\<close>

theorem BuildProgram_fetch_failure_continues:
  assumes "buildStatus env h p devs options \<noteq> CL_SUCCESS"
    and "fst (collectDevicesForLogs env h p devs) = Inr ds"
    and "i < length ds" and "j < length ds" and "i \<noteq> j"
    and "fst (GetBuildLog env p (ds ! i)) = Inl e"
    and "fst (GetBuildLog env p (ds ! j)) = Inr lg"
    and "TrimSpace env lg \<noteq> []"
  shows "fst (BuildProgram env h p devs options) =
           Some (BuildError (Join
             ((''status='' @ Error env (toError env (buildStatus env h p devs options)))
              # concat (map (deviceSection env p) (take (min i j) ds))
              @ [if i < j
                 then safeDeviceLabel env (ds ! i) @ '': <unable to fetch build log: ''
                      @ Error env e @ ''>''
                 else safeDeviceLabel env (ds ! j) @ '':'' @ [CHR 0x0A] @ TrimSpace env lg]
              @ concat (map (deviceSection env p)
                          (take (max i j - Suc (min i j)) (drop (Suc (min i j)) ds)))
              @ [if i < j
                 then safeDeviceLabel env (ds ! j) @ '':'' @ [CHR 0x0A] @ TrimSpace env lg
                 else safeDeviceLabel env (ds ! i) @ '': <unable to fetch build log: ''
                      @ Error env e @ ''>'']
              @ concat (map (deviceSection env p) (drop (Suc (max i j)) ds)))
             [CHR 0x0A]))"
proof -
  have si: "deviceSection env p (ds ! i) =
              [safeDeviceLabel env (ds ! i) @ '': <unable to fetch build log: '' @ Error env e @ ''>'']"
    using assms(6) by (simp add: deviceSection_def)
  have sj: "deviceSection env p (ds ! j) =
              [safeDeviceLabel env (ds ! j) @ '':'' @ [CHR 0x0A] @ TrimSpace env lg]"
    using assms(7,8) by (simp add: deviceSection_def)
  have ab: "min i j < max i j" and b: "max i j < length ds"
    using assms(3,4,5) by auto
  have sp: "concat (map (deviceSection env p) ds) =
              concat (map (deviceSection env p) (take (min i j) ds))
              @ deviceSection env p (ds ! min i j)
              @ concat (map (deviceSection env p)
                          (take (max i j - Suc (min i j)) (drop (Suc (min i j)) ds)))
              @ deviceSection env p (ds ! max i j)
              @ concat (map (deviceSection env p) (drop (Suc (max i j)) ds))"
    by (rule sections_split_two [OF ab b])
  have ne: "concat (map (deviceSection env p) ds) \<noteq> []"
    using sp si sj by (cases "i < j") (simp_all add: min_def max_def)
  have r: "fst (BuildProgram env h p devs options) =
             Some (BuildError (Join
               ((''status='' @ Error env (toError env (buildStatus env h p devs options)))
                # concat (map (deviceSection env p) ds)) [CHR 0x0A]))"
    by (simp only: BuildProgram_failed_resolved [OF assms(1,2)] ne if_False)
  show ?thesis
  proof (cases "i < j")
    case True
    then have m: "min i j = i" "max i j = j" by simp_all
    show ?thesis
      unfolding r using sp True by (simp only: m si sj if_True append_assoc)
  next
    case False
    then have m: "min i j = j" "max i j = i" using assms(5) by simp_all
    show ?thesis
      unfolding r using sp False by (simp only: m si sj if_False append_assoc)
  qed
qed

theorem BuildProgram_fetch_failure_continues_witness:
  "buildStatus (fakeNative (-11)) [[Some \<lparr>dev_id = 0x30\<rparr>, Some \<lparr>dev_id = 0x10\<rparr>]]
       \<lparr>clProgram = 0x1000, devices = NilSlice\<rparr> (Slice 0 0 2) [] \<noteq> CL_SUCCESS
   \<and> fst (collectDevicesForLogs (fakeNative (-11)) [[Some \<lparr>dev_id = 0x30\<rparr>, Some \<lparr>dev_id = 0x10\<rparr>]]
            \<lparr>clProgram = 0x1000, devices = NilSlice\<rparr> (Slice 0 0 2))
       = Inr [Some \<lparr>dev_id = 0x30\<rparr>, Some \<lparr>dev_id = 0x10\<rparr>]
   \<and> fst (GetBuildLog (fakeNative (-11)) \<lparr>clProgram = 0x1000, devices = NilSlice\<rparr>
            (Some \<lparr>dev_id = 0x30\<rparr>)) = Inl ErrInvalidDevice
   \<and> fst (GetBuildLog (fakeNative (-11)) \<lparr>clProgram = 0x1000, devices = NilSlice\<rparr>
            (Some \<lparr>dev_id = 0x10\<rparr>)) = Inr ''error: syntax\<newline>''
   \<and> fst (BuildProgram (fakeNative (-11)) [[Some \<lparr>dev_id = 0x30\<rparr>, Some \<lparr>dev_id = 0x10\<rparr>]]
            \<lparr>clProgram = 0x1000, devices = NilSlice\<rparr> (Slice 0 0 2) [])
       = Some (BuildError ''status=cl: Build Program Failure\<newline>device@0x30: <unable to fetch build log: cl: Invalid Device>\<newline>GPU0:\<newline>error: syntax'')"
proof -
  let ?h = "[[Some \<lparr>dev_id = 0x30\<rparr>, Some \<lparr>dev_id = (0x10 :: 64 word)\<rparr>]]"
  let ?p = "\<lparr>clProgram = 0x1000, devices = NilSlice\<rparr>"
  let ?ds = "[Some \<lparr>dev_id = 0x30\<rparr>, Some \<lparr>dev_id = (0x10 :: 64 word)\<rparr>]"
  have f: "buildStatus (fakeNative (-11)) ?h ?p (Slice 0 0 2) [] \<noteq> CL_SUCCESS"
    by (simp add: fake_status CL_SUCCESS_def)
  have r: "fst (collectDevicesForLogs (fakeNative (-11)) ?h ?p (Slice 0 0 2)) = Inr ?ds"
    by (simp add: collectDevicesForLogs_eq deviceIDKey_def)
  have i: "0 < length ?ds" and j: "1 < length ?ds" and ij: "(0 :: nat) \<noteq> 1"
    by simp_all
  have gi: "fst (GetBuildLog (fakeNative (-11)) ?p (?ds ! 0)) = Inl ErrInvalidDevice"
    by (simp add: fake_GetBuildLog_30)
  have gj: "fst (GetBuildLog (fakeNative (-11)) ?p (?ds ! 1)) = Inr ''error: syntax\<newline>''"
    by (simp add: fake_GetBuildLog_10)
  have t: "TrimSpace (fakeNative (-11)) ''error: syntax\<newline>'' \<noteq> []"
    by (simp add: fake_TrimSpace_log)
  have x: "errorText (fakeNative (-11)) ErrInvalidDevice = ''cl: Invalid Device''"
    by (simp add: fakeNative_def)
  show ?thesis
    using f r gi gj BuildProgram_fetch_failure_continues [OF f r i j ij gi gj t]
    by (simp add: fake_status fake_status_text fake_label_10 fake_label_30 fake_TrimSpace_log x)
qed

subsection \<open>C9: releasing twice is releasing once\<close>

text \<open>
  Claim C9. For every Program, \<open>Release\<close> followed by \<open>Release\<close> leaves the state that one
  \<open>Release\<close> leaves. \<open>Release\<close> has no error result. The second call makes no native call,
  so the handle is released once when it was present and never otherwise. After one call
  and after two, the handle is nil and the cached device list is the nil slice.
\<close>

theorem Release_idempotent:
  "(case Release p of (p1, calls1) \<Rightarrow>
      (case Release p1 of (p2, calls2) \<Rightarrow>
         p2 = p1 \<and> calls2 = []
         \<and> clProgram p1 = 0 \<and> devices p1 = NilSlice
         \<and> clProgram p2 = 0 \<and> devices p2 = NilSlice
         \<and> calls1 @ calls2 =
             (if clProgram p \<noteq> 0 then [CallReleaseProgram (clProgram p)] else [])))"
  by (simp add: Release_def releaseProgram_def Let_def)

theorem Release_idempotent_witness:
  "Release \<lparr>clProgram = 0x1000, devices = Slice 0 0 2\<rparr>
     = (\<lparr>clProgram = 0, devices = NilSlice\<rparr>, [CallReleaseProgram 0x1000])
   \<and> Release (fst (Release \<lparr>clProgram = 0x1000, devices = Slice 0 0 2\<rparr>))
       = (\<lparr>clProgram = 0, devices = NilSlice\<rparr>, [])"
  using Release_idempotent [of "\<lparr>clProgram = 0x1000, devices = Slice 0 0 2\<rparr>"]
  by (simp add: Release_def releaseProgram_def Let_def)

subsection \<open>C10: a failed build leaves the Program as it was\<close>

text \<open>
  Claim C10. When the native build returns a status other than success, \<open>BuildProgram\<close>
  returns an error and the Program and the store are those before the call: the handle and
  the cached device list are unchanged, whichever error is returned.
\<close>

theorem BuildProgram_failure_frame:
  assumes "buildStatus env h p devs options \<noteq> CL_SUCCESS"
  shows "(case BuildProgram env h p devs options of (err, p1, h1, calls) \<Rightarrow>
            err \<noteq> None \<and> p1 = p \<and> h1 = h
            \<and> clProgram p1 = clProgram p
            \<and> slice_get h1 (devices p1) = slice_get h (devices p))"
  using wrapBuildError_Some [of env h p "buildStatus env h p devs options" devs]
  by (auto simp: BuildProgram_failed [OF assms])

theorem BuildProgram_failure_frame_witness:
  "buildStatus (fakeNative (-11)) [[Some \<lparr>dev_id = 0x10\<rparr>]]
       \<lparr>clProgram = 0x1000, devices = Slice 0 0 1\<rparr> NilSlice ''-O2'' \<noteq> CL_SUCCESS
   \<and> fst (snd (BuildProgram (fakeNative (-11)) [[Some \<lparr>dev_id = 0x10\<rparr>]]
                \<lparr>clProgram = 0x1000, devices = Slice 0 0 1\<rparr> NilSlice ''-O2''))
       = \<lparr>clProgram = 0x1000, devices = Slice 0 0 1\<rparr>
   \<and> fst (snd (snd (BuildProgram (fakeNative (-11)) [[Some \<lparr>dev_id = 0x10\<rparr>]]
                \<lparr>clProgram = 0x1000, devices = Slice 0 0 1\<rparr> NilSlice ''-O2'')))
       = [[Some \<lparr>dev_id = 0x10\<rparr>]]"
proof -
  have f: "buildStatus (fakeNative (-11)) [[Some \<lparr>dev_id = 0x10\<rparr>]]
       \<lparr>clProgram = 0x1000, devices = Slice 0 0 1\<rparr> NilSlice ''-O2'' \<noteq> CL_SUCCESS"
    by (simp add: buildStatus_def fakeNative_def CL_SUCCESS_def)
  show ?thesis
    using f BuildProgram_failure_frame [OF f]
    by (simp split: prod.splits)
qed

end
